theory Spec2Isabelle
  imports Complex_Main
begin

unbundle bit_operations_syntax

section \<open>Difficulty schedule (IdentityLib, calculateDifficulty)\<close>

text \<open>
  The source computes \<^verbatim>\<open>2 + Math.floor(challenge * 0.4)\<close> on IEEE-754 doubles and
  clamps the result with \<^verbatim>\<open>Math.min(Math.max(value, 2), 4)\<close>. The challenge index is a
  non-negative integer; a double is written here as a natural number of units: the
  product \<^verbatim>\<open>challenge * 0.4\<close> in units of \<open>2\<^sup>-\<^sup>5\<^sup>4\<close> (the literal 0.4 is the double
  \<open>7205759403792794 * 2\<^sup>-\<^sup>5\<^sup>4\<close>), the sum in units of one. Every arithmetic result is
  rounded to 53 significant bits, to nearest, ties to even.
\<close>

fun bit_length :: "nat \<Rightarrow> nat" where
  "bit_length n = (if n = 0 then 0 else Suc (bit_length (n div 2)))"

declare bit_length.simps [simp del]

definition round53 :: "nat \<Rightarrow> nat" where
  "round53 n =
     (let l = bit_length n in
      if l \<le> 53 then n
      else
        let sh = l - 53;
            q = n div 2 ^ sh;
            r = n mod 2 ^ sh;
            h = 2 ^ (sh - 1)
        in (if h < r \<or> (r = h \<and> odd q) then q + 1 else q) * 2 ^ sh)"

definition double_0_4 :: nat where
  "double_0_4 = 7205759403792794"

definition calculateDifficulty :: "nat \<Rightarrow> nat" where
  "calculateDifficulty challenge =
     (let value = round53 (2 + round53 (challenge * double_0_4) div 2 ^ 54)
      in min (max value 2) 4)"

text \<open>The schedule in the words of the specification, with exact arithmetic.\<close>

definition difficulty_spec :: "nat \<Rightarrow> nat" where
  "difficulty_spec i = min 4 (max 2 (2 + nat \<lfloor>real i * (4 / 10)\<rfloor>))"


section \<open>Strings and numbers of the JavaScript runtime\<close>

text \<open>
  Strings are lists of characters, one \<^typ>\<open>char\<close> per code unit; case mapping is the ASCII
  one. A JavaScript number is a finite rational, \<open>NaN\<close> or an infinity; \<open>-0\<close> is identified
  with \<open>0\<close> (the code only tests truthiness, compares and prints numbers).
\<close>

datatype jsnum = Fin rat | NaN | PosInf | NegInf

definition js_toUpperCase :: "char \<Rightarrow> char" where
  "js_toUpperCase c =
     (let n = (of_char c :: nat) in if 97 \<le> n \<and> n \<le> 122 then char_of (n - 32) else c)"

definition js_toLowerCase :: "char \<Rightarrow> char" where
  "js_toLowerCase c =
     (let n = (of_char c :: nat) in if 65 \<le> n \<and> n \<le> 90 then char_of (n + 32) else c)"

definition is_hex :: "char \<Rightarrow> bool" where
  "is_hex c =
     (let n = (of_char c :: nat)
      in (48 \<le> n \<and> n \<le> 57) \<or> (97 \<le> n \<and> n \<le> 102) \<or> (65 \<le> n \<and> n \<le> 70))"

definition hex_value :: "char \<Rightarrow> nat" where
  "hex_value c =
     (let n = (of_char c :: nat)
      in if n \<le> 57 then n - 48 else if 97 \<le> n then n - 87 else n - 55)"

definition hex_number :: "string \<Rightarrow> nat" where
  "hex_number ds = foldl (\<lambda>a d. 16 * a + hex_value d) 0 ds"

definition js_whitespace :: "char \<Rightarrow> bool" where
  "js_whitespace c = ((of_char c :: nat) \<in> {9, 10, 11, 12, 13, 32, 160})"

fun strip_sign :: "string \<Rightarrow> rat \<times> string" where
  "strip_sign [] = (1, [])"
| "strip_sign (c # cs) =
     (if c = CHR ''-'' then (- 1, cs) else if c = CHR ''+'' then (1, cs) else (1, c # cs))"

fun strip_0x :: "string \<Rightarrow> string" where
  "strip_0x (a # b # cs) =
     (if a = CHR ''0'' \<and> (b = CHR ''x'' \<or> b = CHR ''X'') then cs else a # b # cs)"
| "strip_0x cs = cs"

text \<open>\<^verbatim>\<open>parseInt(str, 16)\<close>: leading white space, a sign, an optional \<^verbatim>\<open>0x\<close>, then the
  longest run of hexadecimal digits; \<open>NaN\<close> when that run is empty.\<close>

definition parseInt16 :: "string \<Rightarrow> jsnum" where
  "parseInt16 str =
     (let (sign, s) = strip_sign (dropWhile js_whitespace str);
          z = takeWhile is_hex (strip_0x s)
      in if z = [] then NaN else Fin (sign * of_nat (hex_number z)))"

text \<open>\<^verbatim>\<open>n >= k\<close> for a number \<open>n\<close> and a finite \<open>k\<close>.\<close>

definition num_ge :: "jsnum \<Rightarrow> rat \<Rightarrow> bool" where
  "num_ge n k = (case n of Fin q \<Rightarrow> k \<le> q | PosInf \<Rightarrow> True | _ \<Rightarrow> False)"

text \<open>The string that \<^verbatim>\<open>parseInt\<close> sees for \<^verbatim>\<open>str[i]\<close>: one character, or
  \<^verbatim>\<open>undefined\<close> past the end.\<close>

definition index_string :: "string \<Rightarrow> nat \<Rightarrow> string" where
  "index_string str i = (if i < length str then [str ! i] else ''undefined'')"


section \<open>WalletUtils: checksum addresses\<close>

text \<open>
  \<^verbatim>\<open>keccak256\<close> comes from the package js-sha3; the functions below take it as the
  parameter \<open>keccak\<close>.
\<close>

definition generateChecksumAddress :: "(string \<Rightarrow> string) \<Rightarrow> string \<Rightarrow> string" where
  "generateChecksumAddress keccak address =
     (let addr = drop 3 address;
          addrHash = keccak (map js_toLowerCase addr);
          chkAddr = map (\<lambda>i. if num_ge (parseInt16 (index_string addrHash i)) 8
                               then js_toUpperCase (addr ! i) else addr ! i) [0..<length addr]
      in ''xe_'' @ chkAddr)"

text \<open>The regular expression \<^verbatim>\<open>/^(xe_[a-fA-F0-9]{40})$/\<close>.\<close>

definition address_regex :: "string \<Rightarrow> bool" where
  "address_regex a = (take 3 a = ''xe_'' \<and> length a = 43 \<and> list_all is_hex (drop 3 a))"

definition checksumAddressIsValid :: "(string \<Rightarrow> string) \<Rightarrow> string \<Rightarrow> bool" where
  "checksumAddressIsValid keccak address =
     (if \<not> address_regex address then False
      else if address \<noteq> generateChecksumAddress keccak address then False
      else True)"

text \<open>The checksum in the words of the specification: position \<open>j\<close> of the body is the
  upper-cased character when hexadecimal digit \<open>j\<close> of the hash of the lower-cased body is
  at least 8, and the lower-cased character otherwise.\<close>

definition checksum_spec :: "(string \<Rightarrow> string) \<Rightarrow> string \<Rightarrow> string" where
  "checksum_spec keccak address =
     (let body = drop 3 address;
          h2 = keccak (map js_toLowerCase body)
      in ''xe_'' @ map (\<lambda>j. if 8 \<le> hex_value (h2 ! j) then js_toUpperCase (body ! j)
                            else js_toLowerCase (body ! j)) [0..<40])"

text \<open>Flipping the case of the character at one position of a string.\<close>

definition flip_case :: "nat \<Rightarrow> string \<Rightarrow> string" where
  "flip_case i a =
     a[i := (if js_toUpperCase (a ! i) = a ! i then js_toLowerCase (a ! i)
             else js_toUpperCase (a ! i))]"


section \<open>Keccak-256\<close>

text \<open>
  Keccak-256 as js-sha3 computes it (the Keccak submission's padding \<open>0x01 \<dots> 0x80\<close>, rate
  136 bytes, 24 rounds of Keccak-f[1600]), used to run the wallet functions on concrete
  addresses. A lane is a natural number below \<open>2\<^sup>6\<^sup>4\<close>; the state is the list of the 25
  lanes, lane \<open>(x, y)\<close> at index \<open>x + 5y\<close>.
\<close>

type_synonym lane = nat

definition rol :: "nat \<Rightarrow> lane \<Rightarrow> lane" where
  "rol n w = push_bit n (take_bit (64 - n) w) + drop_bit (64 - n) w"

definition lane_not :: "lane \<Rightarrow> lane" where
  "lane_not w = 18446744073709551615 - w"

definition keccak_rc :: "lane list" where
  "keccak_rc =
     [0x0000000000000001, 0x0000000000008082, 0x800000000000808A, 0x8000000080008000,
      0x000000000000808B, 0x0000000080000001, 0x8000000080008081, 0x8000000000008009,
      0x000000000000008A, 0x0000000000000088, 0x0000000080008009, 0x000000008000000A,
      0x000000008000808B, 0x800000000000008B, 0x8000000000008089, 0x8000000000008003,
      0x8000000000008002, 0x8000000000000080, 0x000000000000800A, 0x800000008000000A,
      0x8000000080008081, 0x8000000000008080, 0x0000000080000001, 0x8000000080008008]"

text \<open>For the lane at index \<open>i\<close> after the steps rho and pi: the index it comes from and
  the rotation it gets.\<close>

definition pi_source :: "nat list" where
  "pi_source =
     [0, 6, 12, 18, 24, 3, 9, 10, 16, 22, 1, 7, 13, 19, 20, 4, 5, 11, 17, 23, 2, 8, 14, 15, 21]"

definition rho_offset :: "nat list" where
  "rho_offset =
     [0, 44, 43, 21, 14, 28, 20, 3, 45, 61, 1, 6, 25, 8, 18, 27, 36, 10, 15, 56, 62, 55, 39,
      41, 2]"

definition theta_c :: "lane list \<Rightarrow> lane list" where
  "theta_c a =
     map (\<lambda>x. a ! x XOR a ! (x + 5) XOR a ! (x + 10) XOR a ! (x + 15) XOR a ! (x + 20)) [0..<5]"

definition theta_d :: "lane list \<Rightarrow> lane list" where
  "theta_d c = map (\<lambda>x. c ! ((x + 4) mod 5) XOR rol 1 (c ! ((x + 1) mod 5))) [0..<5]"

definition theta_x :: "lane list \<Rightarrow> lane list \<Rightarrow> lane list" where
  "theta_x d a = map (\<lambda>i. a ! i XOR d ! (i mod 5)) [0..<25]"

definition theta :: "lane list \<Rightarrow> lane list" where
  "theta a = theta_x (theta_d (theta_c a)) a"

definition rho_pi :: "lane list \<Rightarrow> lane list" where
  "rho_pi a = map2 (\<lambda>j r. rol r (a ! j)) pi_source rho_offset"

definition chi :: "lane list \<Rightarrow> lane list" where
  "chi b =
     map (\<lambda>i. b ! i XOR (lane_not (b ! ((i + 1) mod 5 + 5 * (i div 5)))
                          AND b ! ((i + 2) mod 5 + 5 * (i div 5)))) [0..<25]"

definition iota :: "lane \<Rightarrow> lane list \<Rightarrow> lane list" where
  "iota rc a = (hd a XOR rc) # tl a"

definition keccak_round :: "lane \<Rightarrow> lane list \<Rightarrow> lane list" where
  "keccak_round rc a = iota rc (chi (rho_pi (theta a)))"

definition keccak_f :: "lane list \<Rightarrow> lane list" where
  "keccak_f a = fold keccak_round keccak_rc a"

definition keccak_pad :: "nat list \<Rightarrow> nat list" where
  "keccak_pad m =
     (let k = 136 - length m mod 136
      in if k = 1 then m @ [0x81] else m @ [0x01] @ replicate (k - 2) 0 @ [0x80])"

fun lane_of_bytes :: "nat list \<Rightarrow> lane" where
  "lane_of_bytes [] = 0"
| "lane_of_bytes (b # bs) = b + 256 * lane_of_bytes bs"

fun chunks :: "nat \<Rightarrow> 'a list \<Rightarrow> 'a list list" where
  "chunks n xs = (if n = 0 \<or> xs = [] then [] else take n xs # chunks n (drop n xs))"

declare chunks.simps [simp del]

definition absorb :: "lane list \<Rightarrow> nat list \<Rightarrow> lane list" where
  "absorb st block =
     keccak_f (map2 (XOR) st (map lane_of_bytes (chunks 8 block) @ replicate 8 0))"

definition bytes_of_lane :: "lane \<Rightarrow> nat list" where
  "bytes_of_lane w = map (\<lambda>i. w div 256 ^ i mod 256) [0..<8]"

definition hex_digit :: "nat \<Rightarrow> char" where
  "hex_digit d = ''0123456789abcdef'' ! d"

definition hex_of_byte :: "nat \<Rightarrow> string" where
  "hex_of_byte b = [hex_digit (b div 16), hex_digit (b mod 16)]"

definition keccak256 :: "string \<Rightarrow> string" where
  "keccak256 msg =
     (let st = foldl absorb (replicate 25 0) (chunks 136 (keccak_pad (map of_char msg)))
      in concat (map hex_of_byte (take 32 (concat (map bytes_of_lane st)))))"

text \<open>The loop of \<^verbatim>\<open>generateChecksumAddress\<close> on its own: the body \<open>addr\<close> with the
  characters upper-cased where the digit of \<open>hash\<close> is at least 8.\<close>

definition case_pattern :: "string \<Rightarrow> string \<Rightarrow> string" where
  "case_pattern hash addr =
     map (\<lambda>i. if num_ge (parseInt16 (index_string hash i)) 8
              then js_toUpperCase (addr ! i) else addr ! i) [0..<length addr]"


section \<open>JavaScript values\<close>

text \<open>
  The values a verifier can be handed: the primitives, arrays and plain objects (an
  association list of own properties). Values are trees, as \<^verbatim>\<open>JSON.parse\<close> builds them:
  two arrays or objects met at different places are different references. Functions,
  symbols, getters and proxies are outside the model.
\<close>

datatype js_error = TypeError | LibraryError

datatype jsval =
    Undefined
  | Null
  | Bool bool
  | Num jsnum
  | Str string
  | Arr "jsval list"
  | Obj "(string \<times> jsval) list"

text \<open>
  The library functions the code calls, as parameters: js-sha3, crypto-js, elliptic (with
  bn.js) and argon2 are not part of the repository. So are the two conversions of the
  language whose full definition the code does not depend on.
\<close>

record signature_obj =
  sig_r :: nat
  sig_s :: nat
  recoveryParam :: jsval

record prims =
  lib_keccak256 :: "string \<Rightarrow> string"
  lib_sha256 :: "string \<Rightarrow> string"
  lib_getPublic :: "string \<Rightarrow> js_error + string"
  lib_sign :: "string \<Rightarrow> string \<Rightarrow> js_error + signature_obj"
  lib_bn_hex32 :: "nat \<Rightarrow> string"
  lib_recoverPubKey :: "string \<Rightarrow> string \<Rightarrow> string \<Rightarrow> jsnum \<Rightarrow> js_error + string"
  lib_argon2_hex :: "jsval \<Rightarrow> string \<Rightarrow> js_error + string"
  lib_number_format :: "nat \<Rightarrow> rat \<Rightarrow> string"
  lib_string_to_number :: "string \<Rightarrow> jsnum"

text \<open>
  \<^item> \<open>lib_keccak256\<close>: \<^verbatim>\<open>keccak256(text)\<close>, the digest in hexadecimal;
  \<^item> \<open>lib_sha256\<close>: \<^verbatim>\<open>SHA256(msg).toString()\<close>;
  \<^item> \<open>lib_getPublic k\<close>: \<^verbatim>\<open>ec.keyFromPrivate(k).getPublic(true, 'hex')\<close>;
  \<^item> \<open>lib_sign k h\<close>: \<^verbatim>\<open>ec.sign(toArray(h, 'hex'), ec.keyFromPrivate(k), 'hex', {canonical: true})\<close>
    (elliptic derives the nonce from key and message, so signing is a function);
  \<^item> \<open>lib_bn_hex32\<close>: \<^verbatim>\<open>BN.toString('hex', 32)\<close>;
  \<^item> \<open>lib_recoverPubKey h r s v\<close>:
    \<^verbatim>\<open>ec.recoverPubKey(toArray(h, 'hex'), {r, s}, v, 'hex').encode('hex', true)\<close>;
  \<^item> \<open>lib_argon2_hex input salt\<close>: \<^verbatim>\<open>argon2.hash\<close> with the fixed parameters of
    \<^verbatim>\<open>argon2idHash\<close>, then \<^verbatim>\<open>toString('hex')\<close>;
  \<^item> \<open>lib_number_format radix q\<close>: \<^verbatim>\<open>Number.prototype.toString(radix)\<close> on a finite number
    that is not printed as a plain integer;
  \<^item> \<open>lib_string_to_number\<close>: the conversion of a string to a number.
\<close>

function digits_radix :: "nat \<Rightarrow> nat \<Rightarrow> string" where
  "digits_radix b n =
     (if b < 2 \<or> n < b then [hex_digit n]
      else digits_radix b (n div b) @ [hex_digit (n mod b)])"
  by pat_completeness auto
termination
  by (relation "measure snd") auto

declare digits_radix.simps [simp del]

definition is_integer :: "rat \<Rightarrow> bool" where
  "is_integer q = (of_int \<lfloor>q\<rfloor> = q)"

text \<open>\<^verbatim>\<open>n.toString(radix)\<close>; radix 10 is also the conversion of a number in a template
  literal and in \<^verbatim>\<open>string + number\<close>.\<close>

definition numberToString :: "prims \<Rightarrow> nat \<Rightarrow> jsnum \<Rightarrow> string" where
  "numberToString P radix n =
     (case n of
        NaN \<Rightarrow> ''NaN''
      | PosInf \<Rightarrow> ''Infinity''
      | NegInf \<Rightarrow> ''-Infinity''
      | Fin q \<Rightarrow>
          if is_integer q \<and> (radix \<noteq> 10 \<or> \<bar>q\<bar> < 10 ^ 21)
          then (if q < 0 then ''-'' else []) @ digits_radix radix (nat \<bar>\<lfloor>q\<rfloor>\<bar>)
          else lib_number_format P radix q)"

fun join_comma :: "string list \<Rightarrow> string" where
  "join_comma [] = []"
| "join_comma [x] = x"
| "join_comma (x # y # ys) = x @ '','' @ join_comma (y # ys)"

fun toString :: "prims \<Rightarrow> jsval \<Rightarrow> string" where
  "toString P Undefined = ''undefined''"
| "toString P Null = ''null''"
| "toString P (Bool b) = (if b then ''true'' else ''false'')"
| "toString P (Num n) = numberToString P 10 n"
| "toString P (Str str) = str"
| "toString P (Arr xs) =
     join_comma (map (\<lambda>x. if x = Undefined \<or> x = Null then [] else toString P x) xs)"
| "toString P (Obj kvs) = ''[object Object]''"

definition truthy :: "jsval \<Rightarrow> bool" where
  "truthy v =
     (case v of
        Undefined \<Rightarrow> False
      | Null \<Rightarrow> False
      | Bool b \<Rightarrow> b
      | Num n \<Rightarrow> n \<noteq> NaN \<and> n \<noteq> Fin 0
      | Str str \<Rightarrow> str \<noteq> []
      | Arr xs \<Rightarrow> True
      | Obj kvs \<Rightarrow> True)"

text \<open>\<^verbatim>\<open>a === b\<close>. Two arrays or objects are never the same reference here.\<close>

definition strict_eq :: "jsval \<Rightarrow> jsval \<Rightarrow> bool" where
  "strict_eq a b =
     (case a of
        Num NaN \<Rightarrow> False
      | Arr xs \<Rightarrow> False
      | Obj kvs \<Rightarrow> False
      | _ \<Rightarrow> a = b)"

definition toNumber :: "prims \<Rightarrow> jsval \<Rightarrow> jsnum" where
  "toNumber P v =
     (case v of
        Undefined \<Rightarrow> NaN
      | Null \<Rightarrow> Fin 0
      | Bool b \<Rightarrow> Fin (if b then 1 else 0)
      | Num n \<Rightarrow> n
      | Str str \<Rightarrow> lib_string_to_number P str
      | _ \<Rightarrow> lib_string_to_number P (toString P v))"

text \<open>\<^verbatim>\<open>a < b\<close> on numbers.\<close>

definition num_lt :: "jsnum \<Rightarrow> jsnum \<Rightarrow> bool" where
  "num_lt a b =
     (case (a, b) of
        (Fin x, Fin y) \<Rightarrow> x < y
      | (Fin x, PosInf) \<Rightarrow> True
      | (NegInf, Fin y) \<Rightarrow> True
      | (NegInf, PosInf) \<Rightarrow> True
      | _ \<Rightarrow> False)"

text \<open>Reading a property: \<^verbatim>\<open>v.name\<close> for the names the code destructures,
  \<^verbatim>\<open>v.length\<close> and \<^verbatim>\<open>v[i]\<close>. Reading from \<^verbatim>\<open>undefined\<close> or \<^verbatim>\<open>null\<close> throws.\<close>

definition lookup :: "(string \<times> jsval) list \<Rightarrow> string \<Rightarrow> jsval" where
  "lookup kvs k = (case map_of kvs k of None \<Rightarrow> Undefined | Some v \<Rightarrow> v)"

definition getField :: "jsval \<Rightarrow> string \<Rightarrow> js_error + jsval" where
  "getField v name =
     (case v of
        Undefined \<Rightarrow> Inl TypeError
      | Null \<Rightarrow> Inl TypeError
      | Obj kvs \<Rightarrow> Inr (lookup kvs name)
      | _ \<Rightarrow> Inr Undefined)"

definition getLength :: "jsval \<Rightarrow> js_error + jsval" where
  "getLength v =
     (case v of
        Undefined \<Rightarrow> Inl TypeError
      | Null \<Rightarrow> Inl TypeError
      | Str str \<Rightarrow> Inr (Num (Fin (of_nat (length str))))
      | Arr xs \<Rightarrow> Inr (Num (Fin (of_nat (length xs))))
      | Obj kvs \<Rightarrow> Inr (lookup kvs ''length'')
      | _ \<Rightarrow> Inr Undefined)"

definition getIndex :: "jsval \<Rightarrow> nat \<Rightarrow> js_error + jsval" where
  "getIndex v i =
     (case v of
        Undefined \<Rightarrow> Inl TypeError
      | Null \<Rightarrow> Inl TypeError
      | Str str \<Rightarrow> Inr (if i < length str then Str [str ! i] else Undefined)
      | Arr xs \<Rightarrow> Inr (if i < length xs then xs ! i else Undefined)
      | Obj kvs \<Rightarrow> Inr (lookup kvs (digits_radix 10 i))
      | _ \<Rightarrow> Inr Undefined)"

text \<open>\<^verbatim>\<open>str.startsWith(t)\<close>, \<^verbatim>\<open>str.slice(a, b)\<close> for \<open>0 \<le> a \<le> b\<close> and
  \<^verbatim>\<open>str.padStart(2, '0')\<close>.\<close>

definition startsWith :: "string \<Rightarrow> string \<Rightarrow> bool" where
  "startsWith str t = (take (length t) str = t)"

definition slice :: "nat \<Rightarrow> nat \<Rightarrow> string \<Rightarrow> string" where
  "slice a b str = take (b - a) (drop a str)"

definition padStart2 :: "string \<Rightarrow> string" where
  "padStart2 str = replicate (2 - length str) CHR ''0'' @ str"


section \<open>WalletUtils: keys, signatures and recovery\<close>

record wallet =
  w_privateKey :: string
  w_publicKey :: string
  w_address :: string

definition publicKeyToChecksumAddress :: "prims \<Rightarrow> string \<Rightarrow> string" where
  "publicKeyToChecksumAddress P publicKey =
     (let hash = lib_keccak256 P publicKey;
          addr = ''xe_'' @ drop (length hash - 40) hash
      in generateChecksumAddress (lib_keccak256 P) addr)"

definition privateKeyToPublicKey :: "prims \<Rightarrow> string \<Rightarrow> js_error + string" where
  "privateKeyToPublicKey P privateKey = lib_getPublic P privateKey"

definition privateKeyToChecksumAddress :: "prims \<Rightarrow> string \<Rightarrow> js_error + string" where
  "privateKeyToChecksumAddress P privateKey =
     (case privateKeyToPublicKey P privateKey of
        Inl e \<Rightarrow> Inl e
      | Inr publicKey \<Rightarrow> Inr (publicKeyToChecksumAddress P publicKey))"

definition restoreWalletFromPrivateKey :: "prims \<Rightarrow> string \<Rightarrow> js_error + wallet" where
  "restoreWalletFromPrivateKey P privateKey =
     (case lib_getPublic P privateKey of
        Inl e \<Rightarrow> Inl e
      | Inr publicKey \<Rightarrow>
          Inr \<lparr>w_privateKey = privateKey, w_publicKey = publicKey,
               w_address = publicKeyToChecksumAddress P publicKey\<rparr>)"

definition generateSignature :: "prims \<Rightarrow> string \<Rightarrow> string \<Rightarrow> js_error + string" where
  "generateSignature P privateKey msg =
     (let msgHash = lib_sha256 P msg
      in case lib_sign P privateKey msgHash of
           Inl e \<Rightarrow> Inl e
         | Inr signatureObj \<Rightarrow>
             let r = lib_bn_hex32 P (sig_r signatureObj);
                 s = lib_bn_hex32 P (sig_s signatureObj);
                 i = (case recoveryParam signatureObj of
                        Num n \<Rightarrow> padStart2 (numberToString P 16 n)
                      | _ \<Rightarrow> [])
             in Inr (r @ s @ i))"

definition recoverPublicKeyFromSignedMessage ::
  "prims \<Rightarrow> string \<Rightarrow> string \<Rightarrow> js_error + string" where
  "recoverPublicKeyFromSignedMessage P msg signature =
     (let r = slice 0 64 signature;
          s = slice 64 128 signature;
          recoveryParam = parseInt16 (slice 128 130 signature);
          msgHash = lib_sha256 P msg
      in lib_recoverPubKey P msgHash r s recoveryParam)"

definition verifySignatureAddress ::
  "prims \<Rightarrow> string \<Rightarrow> string \<Rightarrow> jsval \<Rightarrow> js_error + bool" where
  "verifySignatureAddress P msg signature address =
     (case recoverPublicKeyFromSignedMessage P msg signature of
        Inl e \<Rightarrow> Inl e
      | Inr publicKey \<Rightarrow>
          Inr (strict_eq address (Str (publicKeyToChecksumAddress P publicKey))))"

definition recoverAddressFromSignedMessage ::
  "prims \<Rightarrow> string \<Rightarrow> string \<Rightarrow> js_error + string" where
  "recoverAddressFromSignedMessage P msg signature =
     (case recoverPublicKeyFromSignedMessage P msg signature of
        Inl e \<Rightarrow> Inl e
      | Inr publicKey \<Rightarrow> Inr (publicKeyToChecksumAddress P publicKey))"


section \<open>IdentityLib: mining\<close>

definition argon2idHash :: "prims \<Rightarrow> jsval \<Rightarrow> string \<Rightarrow> js_error + string" where
  "argon2idHash P input salt = lib_argon2_hex P input salt"

text \<open>\<^verbatim>\<open>solution++\<close> on a double that holds a natural number: \<open>2\<^sup>5\<^sup>3 + 1\<close> rounds back to
  \<open>2\<^sup>5\<^sup>3\<close>.\<close>

definition js_increment :: "nat \<Rightarrow> nat" where
  "js_increment n = (if n < 2 ^ 53 then n + 1 else n)"

text \<open>The \<^verbatim>\<open>while (true)\<close> loop of \<^verbatim>\<open>mineSignature\<close>; \<open>None\<close> is a loop that never
  returns.\<close>

partial_function (option) mine_loop ::
  "prims \<Rightarrow> string \<Rightarrow> string \<Rightarrow> string \<Rightarrow> nat \<Rightarrow> (js_error + string \<times> nat) option" where
  "mine_loop P privateKey target seedHex solution =
     (case generateSignature P privateKey
             (seedHex @ numberToString P 10 (Fin (of_nat solution))) of
        Inl e \<Rightarrow> Some (Inl e)
      | Inr signature \<Rightarrow>
          if startsWith signature target then Some (Inr (signature, solution))
          else mine_loop P privateKey target seedHex (js_increment solution))"

definition mineSignature ::
  "prims \<Rightarrow> string \<Rightarrow> string \<Rightarrow> nat \<Rightarrow> nat \<Rightarrow> (js_error + string \<times> nat) option" where
  "mineSignature P privateKey message difficulty challenge =
     (let target = replicate difficulty CHR ''0'';
          salt = ''xe-challenge-'' @ digits_radix 10 challenge
      in case argon2idHash P (Str message) salt of
           Inl e \<Rightarrow> Some (Inl e)
         | Inr seedHex \<Rightarrow> mine_loop P privateKey target seedHex 0)"


section \<open>IdentityLib: the Identity class\<close>

text \<open>An array with its extensibility: \<^verbatim>\<open>push\<close> on a frozen (or sealed, or
  non-extensible) array throws and leaves the array as it was. The arrays \<open>s\<close> and \<open>c\<close>
  of an identity are two arrays, as \<^verbatim>\<open>generateIdentity\<close> creates them.\<close>

record 'a js_array =
  items :: "'a list"
  extensible :: bool

definition array_push :: "'a js_array \<Rightarrow> 'a \<Rightarrow> js_error + 'a js_array" where
  "array_push arr x =
     (if extensible arr then Inr (arr\<lparr>items := items arr @ [x]\<rparr>) else Inl TypeError)"

record identity =
  id_privateKey :: string
  id_address :: string
  id_timestamp :: jsnum
  id_s :: "string js_array"
  id_c :: "jsnum js_array"

text \<open>\<^verbatim>\<open>addChallenge\<close> returns how the call ended and the identity as it then is;
  \<open>None\<close> when mining never returns.\<close>

definition addChallenge :: "prims \<Rightarrow> identity \<Rightarrow> ((js_error + unit) \<times> identity) option" where
  "addChallenge P this =
     (let nextIndex = length (items (id_s this));
          difficulty = calculateDifficulty nextIndex;
          message = (if nextIndex = 0
                     then id_address this @ '':'' @ numberToString P 10 (id_timestamp this)
                     else items (id_s this) ! (length (items (id_s this)) - 1))
      in case mineSignature P (id_privateKey this) message difficulty nextIndex of
           None \<Rightarrow> None
         | Some (Inl e) \<Rightarrow> Some (Inl e, this)
         | Some (Inr (signature, solution)) \<Rightarrow>
             (case array_push (id_s this) signature of
                Inl e \<Rightarrow> Some (Inl e, this)
              | Inr s' \<Rightarrow>
                  (case array_push (id_c this) (Fin (of_nat solution)) of
                     Inl e \<Rightarrow> Some (Inl e, this\<lparr>id_s := s'\<rparr>)
                   | Inr c' \<Rightarrow> Some (Inr (), this\<lparr>id_s := s', id_c := c'\<rparr>))))"

definition getPublicIdentity :: "identity \<Rightarrow> jsval" where
  "getPublicIdentity this =
     Obj [(''address'', Str (id_address this)),
          (''timestamp'', Num (id_timestamp this)),
          (''s'', Arr (map Str (items (id_s this)))),
          (''c'', Arr (map Num (items (id_c this))))]"


section \<open>IdentityLib: verification\<close>

text \<open>An index from which \<^verbatim>\<open>v[i]\<close> is no string any more: the loop of
  \<^verbatim>\<open>verifyIdentity\<close> cannot pass it, whatever the bound \<^verbatim>\<open>s.length\<close> claims.\<close>

definition index_bound :: "jsval \<Rightarrow> nat" where
  "index_bound v =
     (case v of
        Str str \<Rightarrow> length str
      | Arr xs \<Rightarrow> length xs
      | Obj kvs \<Rightarrow> 10 ^ foldr (\<lambda>kv m. max (length (fst kv)) m) kvs 0
      | _ \<Rightarrow> 0)"


lemma digits_radix_bound: "i < 10 ^ length (digits_radix 10 i)"
proof (induction "10::nat" i rule: digits_radix.induct)
  case (1 n)
  show ?case
  proof (cases "n < 10")
    case True
    then show ?thesis
      by (simp add: digits_radix.simps [of 10 n])
  next
    case False
    then have "n div 10 < 10 ^ length (digits_radix 10 (n div 10))"
      using 1 by simp
    then have "n < 10 * 10 ^ length (digits_radix 10 (n div 10))"
      by (simp add: div_less_iff_less_mult mult.commute)
    then show ?thesis
      using False by (simp add: digits_radix.simps [of 10 n])
  qed
qed

lemma key_length_bound:
  "(k, v) \<in> set kvs \<Longrightarrow> length k \<le> foldr (\<lambda>kv m. max (length (fst kv)) m) kvs 0"
  by (induction kvs) auto

lemma getIndex_Str_bound:
  assumes "getIndex v i = Inr (Str sg)"
  shows "i < index_bound v"
proof (cases v)
  case (Obj kvs)
  with assms have "map_of kvs (digits_radix 10 i) = Some (Str sg)"
    by (auto simp: getIndex_def lookup_def split: option.splits)
  then have "(digits_radix 10 i, Str sg) \<in> set kvs"
    by (rule map_of_SomeD)
  then have "length (digits_radix 10 i) \<le> foldr (\<lambda>kv m. max (length (fst kv)) m) kvs 0"
    by (rule key_length_bound)
  then have "(10::nat) ^ length (digits_radix 10 i)
      \<le> 10 ^ foldr (\<lambda>kv m. max (length (fst kv)) m) kvs 0"
    by (intro power_increasing) auto
  with digits_radix_bound [of i]
  have "i < 10 ^ foldr (\<lambda>kv m. max (length (fst kv)) m) kvs 0"
    by (rule less_le_trans)
  then show ?thesis
    using Obj by (simp add: index_bound_def)
qed (use assms in \<open>auto simp: getIndex_def index_bound_def split: if_splits\<close>)

text \<open>
  The loop of \<^verbatim>\<open>verifyIdentity\<close> from index \<open>i\<close> on. \<open>challenges\<close> is the number
  \<^verbatim>\<open>s.length\<close> converts to in \<^verbatim>\<open>i < challenges\<close>.
\<close>

function verify_loop ::
  "prims \<Rightarrow> jsval \<Rightarrow> jsval \<Rightarrow> jsval \<Rightarrow> jsval \<Rightarrow> jsnum \<Rightarrow> nat \<Rightarrow> js_error + bool" where
  "verify_loop P address timestamp s c challenges i =
     (if \<not> num_lt (Fin (of_nat i)) challenges then Inr True
      else
        (case getIndex s i of
           Inl e \<Rightarrow> Inl e
         | Inr signature \<Rightarrow>
        (case getIndex c i of
           Inl e \<Rightarrow> Inl e
         | Inr solution \<Rightarrow>
        (case signature of
           Str sg \<Rightarrow>
             if \<not> startsWith sg (replicate (calculateDifficulty i) CHR ''0'') then Inr False
             else
               (case (if i = 0
                      then Inr (Str (toString P address @ '':'' @ toString P timestamp))
                      else getIndex s (i - 1)) of
                  Inl e \<Rightarrow> Inl e
                | Inr message \<Rightarrow>
               (case argon2idHash P message (''xe-challenge-'' @ digits_radix 10 i) of
                  Inl e \<Rightarrow> Inl e
                | Inr seedHex \<Rightarrow>
               (case verifySignatureAddress P (seedHex @ toString P solution) sg address of
                  Inl e \<Rightarrow> Inl e
                | Inr ok \<Rightarrow>
                    if \<not> ok then Inr False
                    else verify_loop P address timestamp s c challenges (Suc i))))
         | _ \<Rightarrow> Inl TypeError))))"
  by pat_completeness auto
termination
  by (relation "measure (\<lambda>(P, address, timestamp, s, c, challenges, i). index_bound s - i)")
    (auto dest: getIndex_Str_bound)

declare verify_loop.simps [simp del]

text \<open>The body of the \<^verbatim>\<open>try\<close> block.\<close>

definition verifyIdentity_try :: "prims \<Rightarrow> jsval \<Rightarrow> js_error + bool" where
  "verifyIdentity_try P identity =
     (case getField identity ''address'' of Inl e \<Rightarrow> Inl e | Inr address \<Rightarrow>
     (case getField identity ''timestamp'' of Inl e \<Rightarrow> Inl e | Inr timestamp \<Rightarrow>
     (case getField identity ''s'' of Inl e \<Rightarrow> Inl e | Inr s \<Rightarrow>
     (case getField identity ''c'' of Inl e \<Rightarrow> Inl e | Inr c \<Rightarrow>
     (case getLength s of Inl e \<Rightarrow> Inl e | Inr challenges \<Rightarrow>
        if \<not> truthy s \<or> \<not> truthy c \<or> \<not> truthy timestamp then Inr False
        else
          (case getLength c of Inl e \<Rightarrow> Inl e | Inr c_length \<Rightarrow>
             if \<not> strict_eq challenges c_length \<or> strict_eq challenges (Num (Fin 0))
             then Inr False
             else verify_loop P address timestamp s c (toNumber P challenges) 0))))))"

text \<open>\<^verbatim>\<open>verifyIdentity\<close>: how the promise settles, \<open>Inr\<close> a boolean when it is fulfilled,
  \<open>Inl\<close> an error when it is rejected. The \<^verbatim>\<open>catch\<close> turns an error of the body into
  \<^verbatim>\<open>false\<close>.\<close>

definition verifyIdentity :: "prims \<Rightarrow> jsval \<Rightarrow> js_error + bool" where
  "verifyIdentity P identity =
     (case verifyIdentity_try P identity of
        Inl error \<Rightarrow> Inr False
      | Inr result \<Rightarrow> Inr result)"


section \<open>Notions used to state the properties\<close>

text \<open>The public identity object with fields of the declared types.\<close>

definition identity_object :: "string \<Rightarrow> jsnum \<Rightarrow> string list \<Rightarrow> jsnum list \<Rightarrow> jsval" where
  "identity_object a t sigs sols =
     Obj [(''address'', Str a), (''timestamp'', Num t),
          (''s'', Arr (map Str sigs)), (''c'', Arr (map Num sols))]"

text \<open>The message that link \<open>i\<close> is bound to, and the check the loop makes on link \<open>i\<close>:
  the zero prefix, and the address recovered from the signature over the seed followed
  by the solution.\<close>

definition link_message :: "prims \<Rightarrow> string \<Rightarrow> jsnum \<Rightarrow> string list \<Rightarrow> nat \<Rightarrow> string" where
  "link_message P a t sigs i =
     (if i = 0 then a @ '':'' @ numberToString P 10 t else sigs ! (i - 1))"

definition link_ok ::
  "prims \<Rightarrow> string \<Rightarrow> jsnum \<Rightarrow> string list \<Rightarrow> jsnum list \<Rightarrow> nat \<Rightarrow> bool" where
  "link_ok P a t sigs sols i =
     (startsWith (sigs ! i) (replicate (calculateDifficulty i) CHR ''0'') \<and>
      (case argon2idHash P (Str (link_message P a t sigs i))
              (''xe-challenge-'' @ digits_radix 10 i) of
         Inl e \<Rightarrow> False
       | Inr seedHex \<Rightarrow>
           (case verifySignatureAddress P (seedHex @ numberToString P 10 (sols ! i))
                   (sigs ! i) (Str a) of
              Inl e \<Rightarrow> False
            | Inr ok \<Rightarrow> ok)))"

text \<open>A solution as the specification wants it: a non-negative integer.\<close>

definition nonneg_integer :: "jsnum \<Rightarrow> bool" where
  "nonneg_integer n = (case n of Fin q \<Rightarrow> is_integer q \<and> 0 \<le> q | _ \<Rightarrow> False)"


section \<open>A small instance of the library parameters\<close>

text \<open>
  Concrete runs need concrete library functions. \<open>toy_prims\<close> is a small stand-in with the
  shape of the real ones: digests of 64 hexadecimal digits, a signature \<open>(r, s, v)\<close> that
  depends on key and digest, and a recovery that returns the signer's key for the signed
  digest and another key for any other digest. It makes no claim to security.
\<close>

definition hex_pad :: "nat \<Rightarrow> nat \<Rightarrow> string" where
  "hex_pad w n = replicate (w - length (digits_radix 16 n)) CHR ''0'' @ digits_radix 16 n"

definition toy_hash :: "nat \<Rightarrow> string \<Rightarrow> nat" where
  "toy_hash m str = foldl (\<lambda>a ch. (a * m + of_char ch) mod 65521) 1 str"

text \<open>A digest of \<open>4n\<close> hexadecimal digits grown from a small number.\<close>

fun toy_blocks :: "nat \<Rightarrow> nat \<Rightarrow> string" where
  "toy_blocks 0 x = []"
| "toy_blocks (Suc n) x = hex_pad 4 x @ toy_blocks n ((x * 75 + 74) mod 65521)"

definition toy_mask :: "string \<Rightarrow> nat" where
  "toy_mask h = (hex_number h mod 4 * 16 ^ 63 + hex_number h) mod 16 ^ 64"

definition toy_sign :: "string \<Rightarrow> string \<Rightarrow> js_error + signature_obj" where
  "toy_sign k h =
     (let r = (toy_mask h + hex_number k) mod 16 ^ 64
      in Inr \<lparr>sig_r = r, sig_s = (hex_number h + r) mod 16 ^ 64,
              recoveryParam = Num (Fin (of_nat (hex_number h mod 2)))\<rparr>)"

definition toy_recover :: "string \<Rightarrow> string \<Rightarrow> string \<Rightarrow> jsnum \<Rightarrow> js_error + string" where
  "toy_recover h r s v =
     (if v \<in> {Fin 0, Fin 1, Fin 2, Fin 3}
      then Inr (''02'' @ hex_pad 64
             ((hex_number r + hex_number s + 2 * 16 ^ 64 - toy_mask h
                 - (hex_number h + hex_number r) mod 16 ^ 64) mod 16 ^ 64))
      else Inl LibraryError)"

definition toy_argon2 :: "jsval \<Rightarrow> string \<Rightarrow> js_error + string" where
  "toy_argon2 input salt =
     (case input of
        Str m \<Rightarrow> Inr (toy_blocks 16 (toy_hash 131 (m @ salt)))
      | _ \<Rightarrow> Inl TypeError)"

definition toy_keccak256 :: "string \<Rightarrow> string" where
  "toy_keccak256 str = toy_blocks 16 (toy_hash 31 str)"

definition toy_sha256 :: "string \<Rightarrow> string" where
  "toy_sha256 str = hex_pad 64 (toy_hash 257 str)"

definition toy_getPublic :: "string \<Rightarrow> js_error + string" where
  "toy_getPublic k = Inr (''02'' @ hex_pad 64 (hex_number k))"

definition toy_number_format :: "nat \<Rightarrow> rat \<Rightarrow> string" where
  "toy_number_format radix q = ''0.5''"

definition toy_string_to_number :: "string \<Rightarrow> jsnum" where
  "toy_string_to_number str = NaN"

definition toy_prims :: prims where
  "toy_prims =
     \<lparr>lib_keccak256 = toy_keccak256,
      lib_sha256 = toy_sha256,
      lib_getPublic = toy_getPublic,
      lib_sign = toy_sign,
      lib_bn_hex32 = hex_pad 64,
      lib_recoverPubKey = toy_recover,
      lib_argon2_hex = toy_argon2,
      lib_number_format = toy_number_format,
      lib_string_to_number = toy_string_to_number\<rparr>"

section \<open>Properties of the difficulty schedule\<close>

lemma bit_length_numeral:
  "bit_length 0 = 0"
  "bit_length (Suc 0) = 1"
  "bit_length 1 = 1"
  "bit_length (numeral (Num.Bit0 k)) = Suc (bit_length (numeral k))"
  "bit_length (numeral (Num.Bit1 k)) = Suc (bit_length (numeral k))"
proof -
  show z: "bit_length 0 = 0"
    by (simp add: bit_length.simps [of 0])
  show "bit_length (Suc 0) = 1"
    by (subst bit_length.simps) (simp add: z)
  then show "bit_length 1 = 1"
    by simp
  show "bit_length (numeral (Num.Bit0 k)) = Suc (bit_length (numeral k))"
    by (subst bit_length.simps) simp
  show "bit_length (numeral (Num.Bit1 k)) = Suc (bit_length (numeral k))"
    by (subst bit_length.simps) simp
qed

lemma bit_length_pos: "0 < n \<Longrightarrow> 0 < bit_length n"
  by (subst bit_length.simps) simp

lemma bit_length_lower: "0 < n \<Longrightarrow> 2 ^ (bit_length n - 1) \<le> n"
proof (induction n rule: bit_length.induct)
  case (1 n)
  show ?case
  proof (cases "n div 2 = 0")
    case True
    with 1(2) show ?thesis
      by (simp add: bit_length.simps [of n] bit_length.simps [of 0])
  next
    case False
    then have a: "2 ^ (bit_length (n div 2) - 1) \<le> n div 2"
      using 1 by simp
    have b: "0 < bit_length (n div 2)"
      using False by (simp add: bit_length_pos)
    have "(2::nat) ^ (bit_length n - 1) = 2 * 2 ^ (bit_length (n div 2) - 1)"
      using 1(2) b by (simp add: bit_length.simps [of n] flip: power_Suc)
    also have "\<dots> \<le> 2 * (n div 2)"
      using a by simp
    also have "\<dots> \<le> n"
      by simp
    finally show ?thesis .
  qed
qed

lemma round53_lower:
  assumes "2 ^ k \<le> n"
  shows "2 ^ k \<le> round53 n"
proof (cases "bit_length n \<le> 53")
  case True
  then show ?thesis
    using assms by (simp add: round53_def)
next
  case False
  define sh where "sh = bit_length n - 53"
  define q where "q = n div 2 ^ sh"
  have npos: "0 < n"
    using assms by (cases n) auto
  have "(2::nat) ^ sh \<le> 2 ^ (bit_length n - 1)"
    using False by (intro power_increasing) (auto simp: sh_def)
  then have big: "2 ^ sh \<le> n"
    using bit_length_lower [OF npos] by (rule le_trans)
  have low: "2 ^ k \<le> q * 2 ^ sh"
  proof (cases "sh \<le> k")
    case True
    then have "(2::nat) ^ k = 2 ^ (k - sh) * 2 ^ sh"
      by (simp flip: power_add)
    moreover have "2 ^ (k - sh) \<le> q"
      using assms calculation by (simp add: q_def less_eq_div_iff_mult_less_eq)
    ultimately show ?thesis
      by simp
  next
    case False
    then have "(2::nat) ^ k \<le> 2 ^ sh"
      by (intro power_increasing) auto
    moreover have "1 \<le> q"
      using big by (simp add: q_def less_eq_div_iff_mult_less_eq)
    ultimately show ?thesis
      by (metis le_trans mult.commute mult_le_mono2 nat_mult_1_right)
  qed
  have "q * 2 ^ sh \<le> round53 n"
    using False by (simp add: round53_def Let_def sh_def q_def)
  with low show ?thesis
    by simp
qed

lemma calculateDifficulty_small:
  "calculateDifficulty 0 = 2"
  "calculateDifficulty (Suc 0) = 2"
  "calculateDifficulty 1 = 2"
  "calculateDifficulty 2 = 2"
  "calculateDifficulty 3 = 3"
  "calculateDifficulty 4 = 3"
  by (simp_all add: calculateDifficulty_def round53_def double_0_4_def
      bit_length_numeral Let_def)

lemma calculateDifficulty_large:
  assumes "5 \<le> i"
  shows "calculateDifficulty i = 4"
proof -
  have "(2::nat) ^ 55 \<le> 5 * double_0_4"
    by (simp add: double_0_4_def)
  also have "\<dots> \<le> i * double_0_4"
    using assms by simp
  finally have "2 ^ 55 \<le> round53 (i * double_0_4)"
    by (rule round53_lower)
  then have "2 \<le> round53 (i * double_0_4) div 2 ^ 54"
    by (simp add: less_eq_div_iff_mult_less_eq)
  then have "2 ^ 2 \<le> 2 + round53 (i * double_0_4) div 2 ^ 54"
    by simp
  then have "2 ^ 2 \<le> round53 (2 + round53 (i * double_0_4) div 2 ^ 54)"
    by (rule round53_lower)
  then show ?thesis
    by (simp add: calculateDifficulty_def Let_def)
qed

lemma difficulty_spec_div: "difficulty_spec i = min 4 (max 2 (2 + (i * 2) div 5))"
proof -
  have "real i * (4 / 10) = real (i * 2) / real 5"
    by simp
  then have "\<lfloor>real i * (4 / 10)\<rfloor> = int ((i * 2) div 5)"
    by (simp only: floor_divide_of_nat_eq)
  then show ?thesis
    by (simp add: difficulty_spec_def)
qed

lemma calculateDifficulty_refines_spec: "calculateDifficulty i = difficulty_spec i"
proof (cases "5 \<le> i")
  case True
  then show ?thesis
    by (simp add: calculateDifficulty_large difficulty_spec_div)
next
  case False
  then consider "i = 0" | "i = 1" | "i = 2" | "i = 3" | "i = 4"
    by linarith
  then show ?thesis
    by cases (simp_all add: calculateDifficulty_small difficulty_spec_div)
qed

text \<open>
  Claim C2, as stated, lists \<open>d(4) = 4\<close>. The code gives \<open>4 * 0.4 = 1.6\<close>, whose floor is
  \<open>1\<close>, so the difficulty of challenge 4 is \<open>3\<close>.
\<close>

theorem C2_counterexample: "calculateDifficulty 4 \<noteq> 4"
  by (simp add: calculateDifficulty_small)

text \<open>
  Claim C2, amended: the schedule is the pure function
  \<open>d(i) = clamp(2 + floor(i * 0.4), 2, 4)\<close>; its values are
  \<open>d(0) = 2\<close>, \<open>d(1) = 2\<close>, \<open>d(2) = 2\<close>, \<open>d(3) = 3\<close>, \<open>d(4) = 3\<close>, and \<open>d(i) = 4\<close> for
  every \<open>i \<ge> 5\<close> (written \<open>5 + k\<close>), in particular \<open>d(100) = 4\<close>.
\<close>

theorem C2_difficulty_schedule:
  "calculateDifficulty i = difficulty_spec i
   \<and> map calculateDifficulty [0, 1, 2, 3, 4] = [2, 2, 2, 3, 3]
   \<and> calculateDifficulty (5 + k) = 4
   \<and> calculateDifficulty 100 = 4"
proof -
  have "calculateDifficulty i = difficulty_spec i"
    by (rule calculateDifficulty_refines_spec)
  moreover have "map calculateDifficulty [0, 1, 2, 3, 4] = [2, 2, 2, 3, 3]"
    by (simp add: calculateDifficulty_small)
  moreover have "calculateDifficulty (5 + k) = 4"
    by (rule calculateDifficulty_large) simp
  moreover have "calculateDifficulty 100 = 4"
    by (rule calculateDifficulty_large) simp
  ultimately show ?thesis
    by simp
qed


section \<open>Evaluation of lists and characters\<close>

lemma replicate_numeral_eval: "replicate (numeral k) x = x # replicate (pred_numeral k) x"
  by (simp add: numeral_eq_Suc)

lemma char_of_nat_eval:
  "char_of (n::nat) =
     Char (odd n) (odd (n div 2)) (odd (n div 4)) (odd (n div 8))
       (odd (n div 16)) (odd (n div 32)) (odd (n div 64)) (odd (n div 128))"
  by (simp add: char_of_def bit_iff_odd)

text \<open>Evaluation simplifies the bound term of a \<open>let\<close> before its body.\<close>

lemma let_arg_cong: "a = b \<Longrightarrow> Let a t = Let b t"
  by simp


section \<open>Evaluating Keccak-256\<close>

lemma upt_5: "[0..<5] = [0, 1, 2, 3, 4]"
  by (simp add: upt_rec)

lemma upt_8: "[0..<8] = [0, 1, 2, 3, 4, 5, 6, 7]"
  by (simp add: upt_rec)

lemma upt_25:
  "[0..<25] =
     [0, 1, 2, 3, 4, 5, 6, 7, 8, 9, 10, 11, 12, 13, 14, 15, 16, 17, 18, 19, 20, 21, 22, 23, 24]"
  by (simp add: upt_rec)

lemma theta_c_unroll:
  "theta_c [a0, a1, a2, a3, a4, a5, a6, a7, a8, a9, a10, a11, a12, a13, a14, a15, a16, a17, a18, a19,
       a20, a21, a22, a23, a24] =
     [a0 XOR a5 XOR a10 XOR a15 XOR a20, a1 XOR a6 XOR a11 XOR a16 XOR a21, a2 XOR a7 XOR a12 XOR
      a17 XOR a22, a3 XOR a8 XOR a13 XOR a18 XOR a23, a4 XOR a9 XOR a14 XOR a19 XOR a24]"
  by (simp add: theta_c_def upt_5)

lemma theta_d_unroll:
  "theta_d [c0, c1, c2, c3, c4] =
     [c4 XOR rol 1 c1, c0 XOR rol 1 c2, c1 XOR rol 1 c3, c2 XOR rol 1 c4, c3 XOR rol 1 c0]"
  by (simp add: theta_d_def upt_5)

lemma theta_x_unroll:
  "theta_x [d0, d1, d2, d3, d4]
     [a0, a1, a2, a3, a4, a5, a6, a7, a8, a9, a10, a11, a12, a13, a14, a15, a16, a17, a18, a19,
      a20, a21, a22, a23, a24] =
     [a0 XOR d0, a1 XOR d1, a2 XOR d2, a3 XOR d3, a4 XOR d4, a5 XOR d0, a6 XOR d1, a7 XOR d2, a8
      XOR d3, a9 XOR d4, a10 XOR d0, a11 XOR d1, a12 XOR d2, a13 XOR d3, a14 XOR d4, a15 XOR
      d0, a16 XOR d1, a17 XOR d2, a18 XOR d3, a19 XOR d4, a20 XOR d0, a21 XOR d1, a22 XOR
      d2, a23 XOR d3, a24 XOR d4]"
  by (simp add: theta_x_def upt_25)

lemma rho_pi_unroll:
  "rho_pi [a0, a1, a2, a3, a4, a5, a6, a7, a8, a9, a10, a11, a12, a13, a14, a15, a16, a17, a18, a19,
       a20, a21, a22, a23, a24] =
     [rol 0 a0, rol 44 a6, rol 43 a12, rol 21 a18, rol 14 a24, rol 28 a3, rol 20 a9, rol 3 a10,
      rol 45 a16, rol 61 a22, rol 1 a1, rol 6 a7, rol 25 a13, rol 8 a19, rol 18 a20, rol 27
      a4, rol 36 a5, rol 10 a11, rol 15 a17, rol 56 a23, rol 62 a2, rol 55 a8, rol 39 a14,
      rol 41 a15, rol 2 a21]"
  by (simp add: rho_pi_def pi_source_def rho_offset_def)

lemma chi_unroll:
  "chi [a0, a1, a2, a3, a4, a5, a6, a7, a8, a9, a10, a11, a12, a13, a14, a15, a16, a17, a18, a19,
       a20, a21, a22, a23, a24] =
     [a0 XOR (lane_not a1 AND a2), a1 XOR (lane_not a2 AND a3), a2 XOR (lane_not a3 AND a4), a3
      XOR (lane_not a4 AND a0), a4 XOR (lane_not a0 AND a1), a5 XOR (lane_not a6 AND a7), a6
      XOR (lane_not a7 AND a8), a7 XOR (lane_not a8 AND a9), a8 XOR (lane_not a9 AND a5), a9
      XOR (lane_not a5 AND a6), a10 XOR (lane_not a11 AND a12), a11 XOR (lane_not a12 AND
      a13), a12 XOR (lane_not a13 AND a14), a13 XOR (lane_not a14 AND a10), a14 XOR
      (lane_not a10 AND a11), a15 XOR (lane_not a16 AND a17), a16 XOR (lane_not a17 AND
      a18), a17 XOR (lane_not a18 AND a19), a18 XOR (lane_not a19 AND a15), a19 XOR
      (lane_not a15 AND a16), a20 XOR (lane_not a21 AND a22), a21 XOR (lane_not a22 AND
      a23), a22 XOR (lane_not a23 AND a24), a23 XOR (lane_not a24 AND a20), a24 XOR
      (lane_not a20 AND a21)]"
  by (simp add: chi_def upt_25)

lemmas keccak_round_eval =
  theta_c_unroll theta_d_unroll theta_x_unroll theta_def rho_pi_unroll chi_unroll
  iota_def keccak_round_def rol_def lane_not_def keccak_f_def keccak_rc_def

lemma chunks_Nil: "chunks n [] = []"
  by (simp add: chunks.simps)

lemma chunks_Cons:
  "chunks (numeral k) (x # xs) =
     take (numeral k) (x # xs) # chunks (numeral k) (drop (numeral k) (x # xs))"
  by (subst chunks.simps) simp

lemma keccak_f_empty_block:
  "keccak_f
     [Suc 0, 0, 0, 0, 0, 0, 0, 0, 0, 0, 0, 0, 0, 0, 0, 0, 9223372036854775808, 0, 0, 0, 0, 0, 0, 0,
      0] =
     [4333579421379646149, 13836122230913597074, 4262519377828905189, 8116759062988257915,
      8406387447366859581, 14671339323370021561, 2243375101132795228, 9371364203318886753,
      9347994793612953298, 12814238161780307547, 4391692840257016808, 4309499098775122448,
      13438072403645551266, 18018124564071650747, 4323130096954625545, 16970298442240338249,
      1971761234120675839, 450719451514497906, 18340686150147091359, 11254645818134300982,
      16062291397582171322, 1601982631079003425, 7734681229251997073, 13256946727218518206,
      11816912122432958423]"
  by (simp add: keccak_round_eval)

lemma keccak_f_a40_block:
  "keccak_f
     [7016996765293437281, 7016996765293437281, 7016996765293437281, 7016996765293437281,
      7016996765293437281, Suc 0, 0, 0, 0, 0, 0, 0, 0, 0, 0, 0, 9223372036854775808, 0, 0, 0, 0,
      0, 0, 0, 0] =
     [6676451101619345486, 11583331717983350607, 9243418928835866035, 10491451129264109200,
      1612103252408677559, 6741093590116953149, 3867486578981839319, 14418185520342561528,
      14275444885907492627, 690100308296706618, 2990815294262230044, 10016190817539673071,
      12812869094489431247, 5927894820762370769, 15726328723566011263, 14209755841139382527,
      13931198545523789826, 11696133884544051952, 4642570608102134253, 17269955301712588586,
      16910136969219724745, 10970858579328760625, 7857572730665991088, 12069051166701468978,
      6609426025451446644]"
  by (simp add: keccak_round_eval)

lemmas keccak256_eval =
  keccak256_def keccak_pad_def absorb_def chunks_Nil chunks_Cons bytes_of_lane_def upt_8
  hex_of_byte_def hex_digit_def replicate_numeral_eval

text \<open>The test vector of the empty message.\<close>

lemma keccak256_empty:
  "keccak256 '''' = ''c5d2460186f7233c927e7db2dcc703c0e500b653ca82273b7bfad8045d85a470''"
  by (simp add: keccak256_eval keccak_f_empty_block)

lemma keccak256_a40:
  "keccak256 ''aaaaaaaaaaaaaaaaaaaaaaaaaaaaaaaaaaaaaaaa'' =
     ''4e584950e784a75c4fafe98dd342c0a0b32d62c38a3847809076284a371f9991''"
  by (simp add: keccak256_eval keccak_f_a40_block)


section \<open>Properties of the checksum\<close>

lemma lower_upper: "js_toLowerCase (js_toUpperCase c) = js_toLowerCase c"
  by (auto simp: js_toLowerCase_def js_toUpperCase_def Let_def)

lemma upper_upper: "js_toUpperCase (js_toUpperCase c) = js_toUpperCase c"
  by (auto simp: js_toUpperCase_def Let_def)

lemma is_hex_upper: "is_hex (js_toUpperCase c) = is_hex c"
  by (auto simp: is_hex_def js_toUpperCase_def Let_def)

lemma generateChecksumAddress_case_pattern:
  "generateChecksumAddress keccak a =
     ''xe_'' @ case_pattern (keccak (map js_toLowerCase (drop 3 a))) (drop 3 a)"
  by (simp add: generateChecksumAddress_def case_pattern_def Let_def)

lemma length_case_pattern: "length (case_pattern hash addr) = length addr"
  by (simp add: case_pattern_def)

lemma nth_case_pattern:
  "i < length addr \<Longrightarrow>
   case_pattern hash addr ! i =
     (if num_ge (parseInt16 (index_string hash i)) 8 then js_toUpperCase (addr ! i)
      else addr ! i)"
  by (simp add: case_pattern_def)

lemma lower_case_pattern:
  "map js_toLowerCase (case_pattern hash addr) = map js_toLowerCase addr"
  by (rule nth_equalityI) (simp_all add: length_case_pattern nth_case_pattern lower_upper)

lemma case_pattern_idem: "case_pattern hash (case_pattern hash addr) = case_pattern hash addr"
  by (rule nth_equalityI) (simp_all add: length_case_pattern nth_case_pattern upper_upper)

lemma is_hex_case_pattern:
  "list_all is_hex addr \<Longrightarrow> list_all is_hex (case_pattern hash addr)"
  by (simp add: list_all_length length_case_pattern nth_case_pattern is_hex_upper)

lemma generateChecksumAddress_idem:
  "generateChecksumAddress keccak (generateChecksumAddress keccak a) =
     generateChecksumAddress keccak a"
  by (simp add: generateChecksumAddress_case_pattern lower_case_pattern case_pattern_idem)

lemma address_regex_generate:
  assumes "address_regex a"
  shows "address_regex (generateChecksumAddress keccak a)"
proof -
  have "length (drop 3 a) = 40" and "list_all is_hex (drop 3 a)"
    using assms by (simp_all add: address_regex_def)
  then show ?thesis
    by (simp add: address_regex_def generateChecksumAddress_case_pattern
        length_case_pattern is_hex_case_pattern)
qed

lemma checksumAddressIsValid_generate:
  "address_regex a \<Longrightarrow> checksumAddressIsValid keccak (generateChecksumAddress keccak a)"
  by (simp add: checksumAddressIsValid_def address_regex_generate generateChecksumAddress_idem)

text \<open>On a hash at least as long as the body, the loop is a \<open>zip\<close>.\<close>

lemma case_pattern_zip:
  assumes "length addr \<le> length hash"
  shows "case_pattern hash addr =
    map2 (\<lambda>d c. if num_ge (parseInt16 [d]) 8 then js_toUpperCase c else c) hash addr"
  using assms
  by (intro nth_equalityI) (simp_all add: length_case_pattern nth_case_pattern index_string_def)

lemmas char_eval =
  js_toUpperCase_def js_toLowerCase_def is_hex_def hex_value_def hex_number_def
  js_whitespace_def char_of_nat_eval parseInt16_def num_ge_def

lemmas checksum_eval =
  generateChecksumAddress_case_pattern case_pattern_zip checksumAddressIsValid_def
  address_regex_def char_eval


section \<open>Claims on the checksum\<close>

text \<open>
  Claim C9 (checksum idempotence): for every string \<open>a\<close> that matches the address
  regular expression, checksumming the checksummed address gives the checksummed
  address again. It holds for every hash function.
\<close>

theorem C9_checksum_idempotent:
  assumes "address_regex a"
  shows "generateChecksumAddress keccak (generateChecksumAddress keccak a) =
    generateChecksumAddress keccak a"
  by (rule generateChecksumAddress_idem)

theorem C9_checksum_idempotent_witness:
  "address_regex ''xe_0000111111111111111111111111111111112222'' \<and>
   generateChecksumAddress keccak256
     (generateChecksumAddress keccak256 ''xe_0000111111111111111111111111111111112222'') =
   generateChecksumAddress keccak256 ''xe_0000111111111111111111111111111111112222''"
proof -
  have r: "address_regex ''xe_0000111111111111111111111111111111112222''"
    by (simp add: address_regex_def is_hex_def)
  show ?thesis
    using r C9_checksum_idempotent [OF r, of keccak256] by simp
qed

text \<open>The part of the checksum validation that holds: a generated checksum address is
  valid, and lowering a letter that the hash wants in upper case is detected.\<close>

lemma lowered_letter_rejected:
  assumes "address_regex a" and "j < 40"
    and "num_ge (parseInt16 (index_string (keccak (map js_toLowerCase (drop 3 a))) j)) 8"
    and "js_toUpperCase (a ! (3 + j)) \<noteq> a ! (3 + j)"
  shows "\<not> checksumAddressIsValid keccak a"
proof
  assume "checksumAddressIsValid keccak a"
  then have "a = generateChecksumAddress keccak a"
    by (simp add: checksumAddressIsValid_def split: if_splits)
  then have "drop 3 a = case_pattern (keccak (map js_toLowerCase (drop 3 a))) (drop 3 a)"
    by (metis append_eq_conv_conj generateChecksumAddress_case_pattern length_Cons
        list.size(3) numeral_3_eq_3)
  then have "drop 3 a ! j = case_pattern (keccak (map js_toLowerCase (drop 3 a))) (drop 3 a) ! j"
    by simp
  moreover have "j < length (drop 3 a)"
    using assms(1,2) by (simp add: address_regex_def)
  ultimately have "drop 3 a ! j = js_toUpperCase (drop 3 a ! j)"
    using assms(3) by (simp add: nth_case_pattern)
  moreover have "drop 3 a ! j = a ! (3 + j)"
    using assms(1) by (simp add: address_regex_def)
  ultimately show False
    using assms(4) by simp
qed

text \<open>
  Claim C3: for every address \<open>a\<close> matching the regular expression the generated
  checksum address is valid, and flipping the case of exactly one letter of it makes it
  invalid. The code does the first; it does not do the second. On the address with the
  body of forty \<open>a\<close>, the first hash digit is 4, the checksum address starts with a lower
  case \<open>a\<close>, and the address with that letter flipped to \<open>A\<close> is accepted: the loop keeps
  the case of a character whose hash digit is below 8 instead of lowering it.
\<close>

theorem C3_flipped_letter_accepted:
  "address_regex ''xe_aaaaaaaaaaaaaaaaaaaaaaaaaaaaaaaaaaaaaaaa''
   \<and> generateChecksumAddress keccak256 ''xe_aaaaaaaaaaaaaaaaaaaaaaaaaaaaaaaaaaaaaaaa''
       = ''xe_aAaAaAaaAaAaAaaAaAAAAAAAAaaaAaAaAaaAaaAa''
   \<and> checksumAddressIsValid keccak256 ''xe_aAaAaAaaAaAaAaaAaAAAAAAAAaaaAaAaAaaAaaAa''
   \<and> flip_case 3 ''xe_aAaAaAaaAaAaAaaAaAAAAAAAAaaaAaAaAaaAaaAa''
       = ''xe_AAaAaAaaAaAaAaaAaAAAAAAAAaaaAaAaAaaAaaAa''
   \<and> checksumAddressIsValid keccak256 ''xe_AAaAaAaaAaAaAaaAaAAAAAAAAaaaAaAaAaaAaaAa''"
proof -
  have "address_regex ''xe_aaaaaaaaaaaaaaaaaaaaaaaaaaaaaaaaaaaaaaaa''"
    by (simp add: address_regex_def is_hex_def)
  moreover have "generateChecksumAddress keccak256 ''xe_aaaaaaaaaaaaaaaaaaaaaaaaaaaaaaaaaaaaaaaa''
       = ''xe_aAaAaAaaAaAaAaaAaAAAAAAAAaaaAaAaAaaAaaAa''"
    by (simp add: checksum_eval keccak256_a40)
  moreover have "checksumAddressIsValid keccak256 ''xe_aAaAaAaaAaAaAaaAaAAAAAAAAaaaAaAaAaaAaaAa''"
    by (simp add: checksum_eval keccak256_a40)
  moreover have "flip_case 3 ''xe_aAaAaAaaAaAaAaaAaAAAAAAAAaaaAaAaAaaAaaAa''
       = ''xe_AAaAaAaaAaAaAaaAaAAAAAAAAaaaAaAaAaaAaaAa''"
    by (simp add: flip_case_def char_eval)
  moreover have "checksumAddressIsValid keccak256 ''xe_AAaAaAaaAaAaAaaAaAAAAAAAAaaaAaAaAaaAaaAa''"
    by (simp add: checksum_eval keccak256_a40)
  ultimately show ?thesis
    by (simp only: simp_thms)
qed

text \<open>
  Claim C4: each character of the body of the result is the upper-cased body character
  when the hash digit is at least 8, and the lower-cased body character otherwise. The
  code upper-cases, but never lower-cases: on an upper-case body it returns its input,
  where the specification's checksum has lower-case letters.
\<close>

theorem C4_uppercase_kept:
  "generateChecksumAddress keccak256 ''xe_AAAAAAAAAAAAAAAAAAAAAAAAAAAAAAAAAAAAAAAA''
     = ''xe_AAAAAAAAAAAAAAAAAAAAAAAAAAAAAAAAAAAAAAAA''
   \<and> checksum_spec keccak256 ''xe_AAAAAAAAAAAAAAAAAAAAAAAAAAAAAAAAAAAAAAAA''
     = ''xe_aAaAaAaaAaAaAaaAaAAAAAAAAaaaAaAaAaaAaaAa''
   \<and> checksumAddressIsValid keccak256 ''xe_AAAAAAAAAAAAAAAAAAAAAAAAAAAAAAAAAAAAAAAA''"
proof -
  have "generateChecksumAddress keccak256 ''xe_AAAAAAAAAAAAAAAAAAAAAAAAAAAAAAAAAAAAAAAA''
     = ''xe_AAAAAAAAAAAAAAAAAAAAAAAAAAAAAAAAAAAAAAAA''"
    by (simp add: checksum_eval keccak256_a40)
  moreover have "checksum_spec keccak256 ''xe_AAAAAAAAAAAAAAAAAAAAAAAAAAAAAAAAAAAAAAAA''
     = ''xe_aAaAaAaaAaAaAaaAaAAAAAAAAaaaAaAaAaaAaaAa''"
    by (simp add: checksum_spec_def char_eval keccak256_a40 upt_rec)
  moreover have "checksumAddressIsValid keccak256 ''xe_AAAAAAAAAAAAAAAAAAAAAAAAAAAAAAAAAAAAAAAA''"
    by (simp add: checksum_eval keccak256_a40)
  ultimately show ?thesis
    by (simp only: simp_thms)
qed

text \<open>On a lower-case body, which is what \<^verbatim>\<open>publicKeyToChecksumAddress\<close> passes, the
  code and the specification's checksum agree.\<close>

lemma case_pattern_lowercase:
  assumes "map js_toLowerCase addr = addr" and "i < length addr"
  shows "case_pattern hash addr ! i =
    (if num_ge (parseInt16 (index_string hash i)) 8 then js_toUpperCase (addr ! i)
     else js_toLowerCase (addr ! i))"
proof -
  have "js_toLowerCase (addr ! i) = addr ! i"
    using assms by (metis nth_map)
  then show ?thesis
    using assms(2) by (simp add: nth_case_pattern)
qed

end
